theory Spec2Isabelle
  imports Complex_Main "HOL-Library.Log_Nat"
begin

section \<open>JavaScript numbers\<close>

text \<open>
  A JavaScript number is an IEEE 754 binary64 value. The finite ones are rationals, and
  every arithmetic operation returns the exact result rounded to the nearest
  representable value, ties to the even significand. \<open>round_double\<close> is that rounding:
  a positive \<open>x\<close> with \<open>2 ^ k \<le> x < 2 ^ (k + 1)\<close> is rounded to a multiple of
  \<open>2 ^ (k - 52)\<close> (53 significant bits), and to a multiple of \<open>2 ^ - 1074\<close> in the
  subnormal range. Overflow to \<open>Infinity\<close> and \<open>NaN\<close> are outside the model: the
  numbers of this program are prices and millisecond counts.
\<close>

definition rne :: "rat \<Rightarrow> int" where
  "rne x = (let f = \<lfloor>x\<rfloor>; r = x - of_int f in
     if r < 1 / 2 then f else if 1 / 2 < r then f + 1 else if even f then f else f + 1)"

definition ilog2 :: "rat \<Rightarrow> int" where
  "ilog2 x = (if 1 \<le> x then bitlen \<lfloor>x\<rfloor> - 1 else - bitlen (\<lceil>1 / x\<rceil> - 1))"

definition round_pos :: "rat \<Rightarrow> rat" where
  "round_pos x = (let e = max (ilog2 x - 52) (- 1074) in of_int (rne (x / 2 powi e)) * 2 powi e)"

definition round_double :: "rat \<Rightarrow> rat" where
  "round_double x = (if x = 0 then 0 else if 0 < x then round_pos x else - round_pos (- x))"

definition js_div :: "rat \<Rightarrow> rat \<Rightarrow> rat" where
  "js_div a b = round_double (a / b)"

definition js_mul :: "rat \<Rightarrow> rat \<Rightarrow> rat" where
  "js_mul a b = round_double (a * b)"

definition js_sub :: "rat \<Rightarrow> rat \<Rightarrow> rat" where
  "js_sub a b = round_double (a - b)"

definition Math_ceil :: "rat \<Rightarrow> int" where
  "Math_ceil x = \<lceil>x\<rceil>"

section \<open>Dates\<close>

text \<open>
  A \<open>Date\<close> is its time value, the milliseconds since the epoch, an integer; comparing
  two dates compares the time values. A valid time value is at most \<open>8.64 * 10 ^ 15\<close> in
  magnitude, below \<open>2 ^ 53\<close>, so \<open>getTime() + n\<close> is exact on them. The local time
  of the server is taken at a fixed offset \<open>tz\<close> (milliseconds east of UTC).
\<close>

type_synonym instant = int

definition getHours :: "int \<Rightarrow> instant \<Rightarrow> int" where
  "getHours tz t = ((t + tz) mod 86400000) div 3600000"

definition getMinutes :: "int \<Rightarrow> instant \<Rightarrow> int" where
  "getMinutes tz t = ((t + tz) mod 3600000) div 60000"

text \<open>\<open>d.setHours(h, m, 0, 0)\<close>: the local day of \<open>d\<close>, at \<open>h:m:00.000\<close>.\<close>

definition setHours :: "int \<Rightarrow> instant \<Rightarrow> int \<Rightarrow> int \<Rightarrow> instant" where
  "setHours tz t h m = ((t + tz) div 86400000) * 86400000 + h * 3600000 + m * 60000 - tz"

section \<open>Documents\<close>

type_synonym oid = nat

datatype appt_status = Scheduled | Completed | Cancelled

text \<open>
  A date field of a document: absent (\<open>undefined\<close>), \<open>null\<close>, or a date. Both of the
  first two are falsy; \<open>new Date(null)\<close> is the epoch and \<open>new Date(undefined)\<close> is an
  invalid date.
\<close>

datatype js_date = Undefined | Null | Date instant

text \<open>
  \<open>Therapist.currentSession\<close>, the availability ledger. For \<open>appointmentId\<close> and
  \<open>startedAt\<close>, \<open>None\<close> is \<open>null\<close> or absent: no code under study tells the two apart
  (\<open>toString()\<close> throws on both).
\<close>

record current_session =
  isActive :: bool
  appointmentId :: "oid option"
  startedAt :: "instant option"
  endsAt :: js_date

record pricing_cfg =
  perSession :: "rat option"

record therapist =
  t_id :: oid
  t_name :: string
  t_email :: "string option"
  profilePicture :: string
  pricing :: "pricing_cfg option"
  currentSession :: "current_session option"

record payment_info =
  amount :: int
  currency :: string
  pay_status :: string
  transactionId :: string
  paidAt :: instant
  pay_method :: string

text \<open>
  \<open>startTime\<close> and \<open>endTime\<close> are the strings \<open>HH:MM\<close>; they are kept as the two
  numbers that \<open>split(':').map(Number)\<close> reads back from them. \<open>startTime = None\<close> is an
  appointment without the field, on which \<open>split\<close> throws.
\<close>

record appointment =
  a_id :: oid
  userId :: oid
  therapistId :: oid
  therapistName :: string
  therapistAvatar :: string
  date :: instant
  startTime :: "(int \<times> int) option"
  endTime :: "int \<times> int"
  duration :: int
  a_type :: string
  status :: appt_status
  payment :: payment_info
  meetingLink :: string

record user =
  u_id :: oid
  u_name :: string
  u_email :: string

text \<open>The record store: three collections, each in its natural order.\<close>

record db =
  therapists :: "therapist list"
  appointments :: "appointment list"
  users :: "user list"

definition TherapistAuth_findById :: "oid \<Rightarrow> db \<Rightarrow> therapist option" where
  "TherapistAuth_findById i d = find (\<lambda>t. t_id t = i) (therapists d)"

definition Appointment_findById :: "oid \<Rightarrow> db \<Rightarrow> appointment option" where
  "Appointment_findById i d = find (\<lambda>a. a_id a = i) (appointments d)"

definition User_findById :: "oid \<Rightarrow> db \<Rightarrow> user option" where
  "User_findById i d = find (\<lambda>u. u_id u = i) (users d)"

text \<open>
  \<open>doc.save()\<close> writes the modified paths of the document with that \<open>_id\<close>: the
  status of an appointment, the \<open>currentSession\<close> of a therapist.
\<close>

definition save_status :: "oid \<Rightarrow> appt_status \<Rightarrow> db \<Rightarrow> db" where
  "save_status i s d =
     d\<lparr>appointments := map (\<lambda>a. if a_id a = i then a\<lparr>status := s\<rparr> else a) (appointments d)\<rparr>"

definition save_currentSession :: "oid \<Rightarrow> current_session \<Rightarrow> db \<Rightarrow> db" where
  "save_currentSession i cs d =
     d\<lparr>therapists := map (\<lambda>t. if t_id t = i then t\<lparr>currentSession := Some cs\<rparr> else t) (therapists d)\<rparr>"

definition Appointment_create :: "appointment \<Rightarrow> db \<Rightarrow> db" where
  "Appointment_create a d = d\<lparr>appointments := appointments d @ [a]\<rparr>"

definition idle_session :: current_session where
  "idle_session = \<lparr>isActive = False, appointmentId = None, startedAt = None, endsAt = Null\<rparr>"

section \<open>POST /api/booking/instant-book\<close>

text \<open>
  The request body. \<open>req_therapistId = None\<close> is a missing (falsy) id;
  \<open>req_duration = None\<close> is an absent duration, which the handler defaults to 30.
\<close>

record book_request =
  req_therapistId :: "oid option"
  req_duration :: "int option"

text \<open>
  What the handler reads from outside: the clock at the busy check (\<open>clk_check\<close>), at the
  computation of the session times (\<open>clk_book\<close>) and at the payment snapshot
  (\<open>clk_paid\<close>), the \<open>_id\<close> the store gives the new appointment, and the two generated
  strings.
\<close>

record book_env =
  clk_check :: instant
  clk_book :: instant
  clk_paid :: instant
  new_id :: oid
  gen_transactionId :: string
  gen_meetingLink :: string

datatype book_response =
  MissingFields
  | BadDuration
  | TherapistNotFound
  | PricingNotConfigured
  | TherapistBusy instant
  | UserNotFound
  | Booked appointment instant

text \<open>\<open>!therapist.pricing || !therapist.pricing.perSession\<close>: the price, when truthy.\<close>

definition configured_price :: "therapist \<Rightarrow> rat option" where
  "configured_price th =
     (case pricing th of None \<Rightarrow> None
      | Some pr \<Rightarrow> (case perSession pr of None \<Rightarrow> None
                   | Some p \<Rightarrow> if p = 0 then None else Some p))"

text \<open>
  The busy check of the handler: \<open>Inl availableAt\<close> when the therapist is busy, else the
  store, with the ledger cleared when it was active without an end or past its end.
\<close>

definition book_busy_check :: "instant \<Rightarrow> therapist \<Rightarrow> db \<Rightarrow> instant + db" where
  "book_busy_check now th d =
     (case currentSession th of None \<Rightarrow> Inr d
      | Some cs \<Rightarrow>
          if isActive cs then
            (case endsAt cs of
               Undefined \<Rightarrow> Inr (save_currentSession (t_id th) idle_session d)
             | Null \<Rightarrow> Inr (save_currentSession (t_id th) idle_session d)
             | Date sessionEndsAt \<Rightarrow>
                 if now < sessionEndsAt then Inl sessionEndsAt
                 else Inr (save_currentSession (t_id th) idle_session d))
          else Inr d)"

definition booking_amount :: "rat \<Rightarrow> int \<Rightarrow> int" where
  "booking_amount p dur = (let perMinuteRate = js_div p 30 in Math_ceil (js_mul perMinuteRate (of_int dur)))"

definition new_appointment :: "int \<Rightarrow> book_env \<Rightarrow> oid \<Rightarrow> therapist \<Rightarrow> rat \<Rightarrow> int \<Rightarrow> appointment" where
  "new_appointment tz env caller th p dur =
     (let now = clk_book env;
          sessionStart = now + 5 * 60000;
          sessionEnd = sessionStart + dur * 60000
      in \<lparr>a_id = new_id env,
          userId = caller,
          therapistId = t_id th,
          therapistName = t_name th,
          therapistAvatar = profilePicture th,
          date = sessionStart,
          startTime = Some (getHours tz sessionStart, getMinutes tz sessionStart),
          endTime = (getHours tz sessionEnd, getMinutes tz sessionEnd),
          duration = dur,
          a_type = ''video'',
          status = Scheduled,
          payment = \<lparr>amount = booking_amount p dur, currency = ''INR'', pay_status = ''completed'',
                      transactionId = gen_transactionId env, paidAt = clk_paid env,
                      pay_method = ''fake_payment''\<rparr>,
          meetingLink = gen_meetingLink env\<rparr>)"

text \<open>
  The handler after the busy check. The two notification e-mails are sent in their
  own \<open>try\<close> blocks and change neither the store nor the response.
\<close>

definition book_create :: "int \<Rightarrow> book_env \<Rightarrow> oid \<Rightarrow> therapist \<Rightarrow> rat \<Rightarrow> int \<Rightarrow> db \<Rightarrow> book_response \<times> db" where
  "book_create tz env caller th p dur d =
     (case User_findById caller d of None \<Rightarrow> (UserNotFound, d)
      | Some u \<Rightarrow>
          (let a = new_appointment tz env caller th p dur;
               d1 = Appointment_create a d;
               d2 = save_currentSession (t_id th)
                      \<lparr>isActive = True, appointmentId = Some (a_id a),
                       startedAt = Some (date a), endsAt = Date (date a + dur * 60000)\<rparr> d1
           in (Booked a (date a), d2)))"

definition instant_book :: "int \<Rightarrow> book_env \<Rightarrow> oid \<Rightarrow> book_request \<Rightarrow> db \<Rightarrow> book_response \<times> db" where
  "instant_book tz env caller req d =
     (let dur = (case req_duration req of None \<Rightarrow> 30 | Some n \<Rightarrow> n) in
      case req_therapistId req of None \<Rightarrow> (MissingFields, d)
      | Some tid \<Rightarrow>
          if dur = 0 then (MissingFields, d)
          else if dur \<noteq> 30 \<and> dur \<noteq> 60 then (BadDuration, d)
          else (case TherapistAuth_findById tid d of None \<Rightarrow> (TherapistNotFound, d)
                | Some th \<Rightarrow>
                    (case configured_price th of None \<Rightarrow> (PricingNotConfigured, d)
                     | Some p \<Rightarrow>
                         (case book_busy_check (clk_check env) th d of
                            Inl availableAt \<Rightarrow> (TherapistBusy availableAt, d)
                          | Inr d1 \<Rightarrow> book_create tz env caller th p dur d1))))"

section \<open>GET /api/booking/therapist-status/:therapistId\<close>

datatype status_response =
  StatusNotFound
  | StatusOk bool "instant option" "current_session option"

definition therapist_status :: "instant \<Rightarrow> oid \<Rightarrow> db \<Rightarrow> status_response \<times> db" where
  "therapist_status now tid d =
     (case TherapistAuth_findById tid d of None \<Rightarrow> (StatusNotFound, d)
      | Some th \<Rightarrow>
          (case currentSession th of None \<Rightarrow> (StatusOk True None None, d)
           | Some cs \<Rightarrow>
               if isActive cs then
                 (case endsAt cs of
                    Undefined \<Rightarrow> (StatusOk True None (Some idle_session),
                                  save_currentSession (t_id th) idle_session d)
                  | Null \<Rightarrow> (StatusOk True None (Some idle_session),
                             save_currentSession (t_id th) idle_session d)
                  | Date sessionEndsAt \<Rightarrow>
                      if now < sessionEndsAt then (StatusOk False (Some sessionEndsAt) (Some cs), d)
                      else (StatusOk True None (Some idle_session),
                            save_currentSession (t_id th) idle_session d))
               else (StatusOk True None (Some cs), d)))"

section \<open>POST /api/booking/join-session/:appointmentId\<close>

text \<open>
  \<open>JoinError\<close> is the 500 response of the handler's \<open>catch\<close>: \<open>populate\<close> leaves \<open>null\<close>
  for a user or therapist that no longer exists, and reading \<open>_id\<close> of it throws.
\<close>

datatype join_response =
  JoinNotFound
  | JoinError
  | NotAuthorized
  | CanJoinIn int instant
  | SessionEnded
  | Joined string bool

definition join_session :: "instant \<Rightarrow> oid \<Rightarrow> oid \<Rightarrow> db \<Rightarrow> join_response" where
  "join_session now caller aid d =
     (case Appointment_findById aid d of None \<Rightarrow> JoinNotFound
      | Some a \<Rightarrow>
          (case User_findById (userId a) d of None \<Rightarrow> JoinError
           | Some u \<Rightarrow>
               (case TherapistAuth_findById (therapistId a) d of None \<Rightarrow> JoinError
                | Some th \<Rightarrow>
                    (let isUser = (u_id u = caller); isTherapist = (t_id th = caller) in
                     if \<not> isUser \<and> \<not> isTherapist then NotAuthorized
                     else
                       (let sessionStart = date a;
                            fiveMinBefore = sessionStart - 5 * 60000;
                            sessionEnd = sessionStart + duration a * 60000
                        in if now < fiveMinBefore then
                             CanJoinIn (Math_ceil (js_div (js_sub (of_int fiveMinBefore) (of_int now)) 60000))
                               fiveMinBefore
                           else if now > sessionEnd then SessionEnded
                           else Joined (meetingLink a) isTherapist)))))"

section \<open>POST /api/booking/end-session/:appointmentId\<close>

text \<open>
  \<open>EndError\<close> is the 500 response of the handler's \<open>catch\<close>. The handler reads
  \<open>therapist.currentSession.appointmentId.toString()\<close>, which throws when the populated
  therapist is \<open>null\<close> and when \<open>appointmentId\<close> is \<open>null\<close>; the status has been saved by
  then. The caller's identity is an argument, as \<open>req.user.id\<close> is for the handler.
\<close>

datatype end_response = EndNotFound | EndOk | EndError

definition end_session :: "instant \<Rightarrow> oid \<Rightarrow> oid \<Rightarrow> db \<Rightarrow> end_response \<times> db" where
  "end_session now caller aid d =
     (case Appointment_findById aid d of None \<Rightarrow> (EndNotFound, d)
      | Some a \<Rightarrow>
          (let d1 = save_status (a_id a) Completed d in
           case TherapistAuth_findById (therapistId a) d of None \<Rightarrow> (EndError, d1)
           | Some th \<Rightarrow>
               (case currentSession th of None \<Rightarrow> (EndOk, d1)
                | Some cs \<Rightarrow>
                    (case appointmentId cs of None \<Rightarrow> (EndError, d1)
                     | Some i \<Rightarrow>
                         if i = a_id a then
                           (let bufferEndTime = now + 10 * 60000 in
                            (EndOk, save_currentSession (t_id th)
                                      \<lparr>isActive = True, appointmentId = None, startedAt = None,
                                       endsAt = Date bufferEndTime\<rparr> d1))
                         else (EndOk, d1)))))"

section \<open>The session auto-end service\<close>

text \<open>
  One tick of the cron job. The whole tick runs inside one \<open>try\<close>. \<open>Threw\<close> is a tick that
  ended in its \<open>catch\<close>, with the store as the saves before the throw left it.

  The queries and saves of the tick are awaited inside that \<open>try\<close>, and each of them can
  reject. Which do is a parameter of the tick: \<open>flt op\<close> holds when the store operation
  \<open>op\<close> fails.
\<close>

datatype 'a outcome = Done 'a | Threw 'a

definition store_of :: "'a outcome \<Rightarrow> 'a" where
  "store_of r = (case r of Done d \<Rightarrow> d | Threw d \<Rightarrow> d)"

datatype store_op =
  FindAppointments
  | SaveAppointment oid
  | FindTherapist oid
  | SaveTherapist oid
  | FindTherapists

type_synonym faults = "store_op \<Rightarrow> bool"

definition no_fault :: faults where
  "no_fault op = False"

definition expiredSessions :: "instant \<Rightarrow> db \<Rightarrow> appointment list" where
  "expiredSessions now d = filter (\<lambda>a. status a = Scheduled \<and> date a \<le> now) (appointments d)"

text \<open>The end of the session as the job computes it; \<open>None\<close> when \<open>startTime.split\<close> throws.\<close>

definition sessionEndTime :: "int \<Rightarrow> appointment \<Rightarrow> instant option" where
  "sessionEndTime tz s =
     (case startTime s of None \<Rightarrow> None
      | Some (hours, minutes) \<Rightarrow>
          (let sessionDate = setHours tz (date s) hours minutes
           in Some (sessionDate + duration s * 60000)))"

text \<open>
  The body of the first loop. It throws where \<open>startTime\<close> is missing, where a store
  operation fails, and at \<open>appointmentId.toString()\<close> when the ledger is active and its
  \<open>appointmentId\<close> is \<open>null\<close>.
\<close>

definition process_session_f :: "faults \<Rightarrow> int \<Rightarrow> instant \<Rightarrow> appointment \<Rightarrow> db \<Rightarrow> db outcome" where
  "process_session_f flt tz now s d =
     (case sessionEndTime tz s of None \<Rightarrow> Threw d
      | Some sessionEnd \<Rightarrow>
          if now > sessionEnd then
            if flt (SaveAppointment (a_id s)) then Threw d
            else
              (let d1 = save_status (a_id s) Completed d in
               if flt (FindTherapist (therapistId s)) then Threw d1
               else
                 (case TherapistAuth_findById (therapistId s) d1 of None \<Rightarrow> Done d1
                  | Some th \<Rightarrow>
                      (case currentSession th of None \<Rightarrow> Done d1
                       | Some cs \<Rightarrow>
                           if isActive cs then
                             (case appointmentId cs of None \<Rightarrow> Threw d1
                              | Some i \<Rightarrow>
                                  if i = a_id s then
                                    if flt (SaveTherapist (t_id th)) then Threw d1
                                    else Done (save_currentSession (t_id th) idle_session d1)
                                  else Done d1)
                           else Done d1)))
          else Done d)"

fun sweep_sessions_f :: "faults \<Rightarrow> int \<Rightarrow> instant \<Rightarrow> appointment list \<Rightarrow> db \<Rightarrow> db outcome" where
  "sweep_sessions_f flt tz now [] d = Done d"
| "sweep_sessions_f flt tz now (s # ss) d =
     (case process_session_f flt tz now s d of
        Threw d' \<Rightarrow> Threw d'
      | Done d' \<Rightarrow> sweep_sessions_f flt tz now ss d')"

definition activeTherapists :: "db \<Rightarrow> therapist list" where
  "activeTherapists d =
     filter (\<lambda>t. case currentSession t of None \<Rightarrow> False | Some cs \<Rightarrow> isActive cs) (therapists d)"

text \<open>
  The body of the second loop. \<open>new Date(null)\<close> is the epoch, so a \<open>null\<close> \<open>endsAt\<close> counts
  as instant 0; \<open>new Date(undefined)\<close> is an invalid date, \<open>now > sessionEndsAt\<close> is false
  on it and the ledger is left alone. A therapist without \<open>currentSession\<close> does not come
  out of the query; reading \<open>endsAt\<close> of it would throw.
\<close>

definition clear_if_expired :: "faults \<Rightarrow> instant \<Rightarrow> therapist \<Rightarrow> instant \<Rightarrow> db \<Rightarrow> db outcome" where
  "clear_if_expired flt now th sessionEndsAt d =
     (if now > sessionEndsAt + 10 * 60000 then
        if flt (SaveTherapist (t_id th)) then Threw d
        else Done (save_currentSession (t_id th) idle_session d)
      else Done d)"

definition process_therapist_f :: "faults \<Rightarrow> instant \<Rightarrow> therapist \<Rightarrow> db \<Rightarrow> db outcome" where
  "process_therapist_f flt now th d =
     (case currentSession th of None \<Rightarrow> Threw d
      | Some cs \<Rightarrow>
          (case endsAt cs of
             Undefined \<Rightarrow> Done d
           | Null \<Rightarrow> clear_if_expired flt now th 0 d
           | Date e \<Rightarrow> clear_if_expired flt now th e d))"

fun sweep_therapists_f :: "faults \<Rightarrow> instant \<Rightarrow> therapist list \<Rightarrow> db \<Rightarrow> db outcome" where
  "sweep_therapists_f flt now [] d = Done d"
| "sweep_therapists_f flt now (t # ts) d =
     (case process_therapist_f flt now t d of
        Threw d' \<Rightarrow> Threw d'
      | Done d' \<Rightarrow> sweep_therapists_f flt now ts d')"

definition sweep_tick_f :: "faults \<Rightarrow> int \<Rightarrow> instant \<Rightarrow> db \<Rightarrow> db outcome" where
  "sweep_tick_f flt tz now d =
     (if flt FindAppointments then Threw d
      else
        (case sweep_sessions_f flt tz now (expiredSessions now d) d of
           Threw d' \<Rightarrow> Threw d'
         | Done d' \<Rightarrow>
             if flt FindTherapists then Threw d'
             else sweep_therapists_f flt now (activeTherapists d') d'))"

text \<open>The tick and its first loop when no store operation fails.\<close>

definition process_session :: "int \<Rightarrow> instant \<Rightarrow> appointment \<Rightarrow> db \<Rightarrow> db outcome" where
  "process_session tz now s d = process_session_f no_fault tz now s d"

definition sweep_sessions :: "int \<Rightarrow> instant \<Rightarrow> appointment list \<Rightarrow> db \<Rightarrow> db outcome" where
  "sweep_sessions tz now ss d = sweep_sessions_f no_fault tz now ss d"

definition sweep_tick :: "int \<Rightarrow> instant \<Rightarrow> db \<Rightarrow> db outcome" where
  "sweep_tick tz now d = sweep_tick_f no_fault tz now d"

section \<open>Example stores\<close>

text \<open>
  One therapist (id 1), one teen (id 2), an unrelated user (id 3) and the appointment 7
  of the teen with the therapist, starting at instant 1000000 for 30 minutes, which
  occupies the therapist's ledger until 2800000. The server's local time is UTC.
\<close>

definition ex_live :: current_session where
  "ex_live = \<lparr>isActive = True, appointmentId = Some 7, startedAt = Some 1000000, endsAt = Date 2800000\<rparr>"

definition ex_therapist :: therapist where
  "ex_therapist = \<lparr>t_id = 1, t_name = ''Asha'', t_email = None, profilePicture = ''asha.png'',
     pricing = Some \<lparr>perSession = Some 500\<rparr>, currentSession = Some ex_live\<rparr>"

definition ex_appointment :: appointment where
  "ex_appointment = \<lparr>a_id = 7, userId = 2, therapistId = 1, therapistName = ''Asha'',
     therapistAvatar = ''asha.png'', date = 1000000, startTime = Some (0, 16), endTime = (0, 46),
     duration = 30, a_type = ''video'', status = Scheduled,
     payment = \<lparr>amount = 501, currency = ''INR'', pay_status = ''completed'',
                 transactionId = ''FAKE_700000_k3'', paidAt = 700000, pay_method = ''fake_payment''\<rparr>,
     meetingLink = ''https://meet.jit.si/zenmind-700000-x1''\<rparr>"

definition ex_users :: "user list" where
  "ex_users = [\<lparr>u_id = 2, u_name = ''teen'', u_email = ''teen@example.org''\<rparr>,
               \<lparr>u_id = 3, u_name = ''other'', u_email = ''other@example.org''\<rparr>]"

definition ex_db :: db where
  "ex_db = \<lparr>therapists = [ex_therapist], appointments = [ex_appointment], users = ex_users\<rparr>"

definition ex_env :: book_env where
  "ex_env = \<lparr>clk_check = 1100000, clk_book = 1100000, clk_paid = 1100001, new_id = 8,
     gen_transactionId = ''FAKE_1100000_q9'', gen_meetingLink = ''https://meet.jit.si/zenmind-1100000-z2''\<rparr>"

text \<open>
  Variants of the store: the appointment cancelled; the ledger active without an end;
  the therapist idle and no appointment yet.
\<close>

definition ex_cancelled_db :: db where
  "ex_cancelled_db = ex_db\<lparr>appointments := [ex_appointment\<lparr>status := Cancelled\<rparr>]\<rparr>"


definition ex_idle_db :: db where
  "ex_idle_db = ex_db\<lparr>therapists := [ex_therapist\<lparr>currentSession := Some idle_session\<rparr>], appointments := []\<rparr>"

text \<open>
  A second therapist (id 4) with the appointment 9, also from 1000000 to 2800000, and
  the store twenty seconds before the tick at 2820000. Nobody ended the appointments 7
  and 9. At 2800000 a status check of therapist 1 cleared the ledger, at 2800005 user 3
  booked therapist 1 (appointment 8), and at 2800010 end-session on 8 put the ledger of
  therapist 1 in cooldown.
\<close>

definition ex_appointment9 :: appointment where
  "ex_appointment9 = ex_appointment\<lparr>a_id := 9, therapistId := 4\<rparr>"

definition ex_therapist4 :: therapist where
  "ex_therapist4 = ex_therapist\<lparr>t_id := 4, t_name := ''Bina'',
     currentSession := Some (ex_live\<lparr>appointmentId := Some 9\<rparr>)\<rparr>"

definition ex_two_db :: db where
  "ex_two_db = \<lparr>therapists = [ex_therapist, ex_therapist4],
     appointments = [ex_appointment, ex_appointment9], users = ex_users\<rparr>"

definition ex_env8 :: book_env where
  "ex_env8 = \<lparr>clk_check = 2800005, clk_book = 2800005, clk_paid = 2800006, new_id = 8,
     gen_transactionId = ''FAKE_2800005_m4'', gen_meetingLink = ''https://meet.jit.si/zenmind-2800005-c7''\<rparr>"

definition ex_sweep_db :: db where
  "ex_sweep_db =
     snd (end_session 2800010 3 8
       (snd (instant_book 0 ex_env8 3 \<lparr>req_therapistId = Some 1, req_duration = Some 30\<rparr>
         (snd (therapist_status 2800000 1 ex_two_db)))))"

text \<open>
  The store after end-session on both appointments of the two therapists, at 2780000
  and 2790000: both ledgers are in cooldown. A save of therapist 1 that fails.
\<close>

definition ex_ended_db :: db where
  "ex_ended_db = snd (end_session 2790000 2 9 (snd (end_session 2780000 2 7 ex_two_db)))"

definition ex_fault :: faults where
  "ex_fault op = (op = SaveTherapist 1)"

section \<open>Lookups after a save\<close>

lemma find_id_map_same:
  "find (\<lambda>x. k x = i) (map (\<lambda>x. if k x = i then f x else x) xs) = map_option f (find (\<lambda>x. k x = i) xs)"
  if "\<And>x. k (f x) = k x"
  using that by (induction xs) auto

lemma find_id_map_other:
  "find (\<lambda>x. k x = j) (map (\<lambda>x. if k x = i then f x else x) xs) = find (\<lambda>x. k x = j) xs"
  if "\<And>x. k (f x) = k x" "i \<noteq> j"
  using that by (induction xs) auto

lemma findTherapist_id: "TherapistAuth_findById i d = Some th \<Longrightarrow> t_id th = i"
  by (auto simp: TherapistAuth_findById_def find_Some_iff)

lemma findAppointment_id: "Appointment_findById i d = Some a \<Longrightarrow> a_id a = i"
  by (auto simp: Appointment_findById_def find_Some_iff)

lemma findUser_id: "User_findById i d = Some u \<Longrightarrow> u_id u = i"
  by (auto simp: User_findById_def find_Some_iff)

lemma findAppointment_save_status:
  "Appointment_findById i (save_status i s d) = map_option (\<lambda>a. a\<lparr>status := s\<rparr>) (Appointment_findById i d)"
  by (simp add: Appointment_findById_def save_status_def find_id_map_same)

lemma findAppointment_save_status_other:
  "i \<noteq> j \<Longrightarrow> Appointment_findById j (save_status i s d) = Appointment_findById j d"
  by (simp add: Appointment_findById_def save_status_def find_id_map_other)

lemma findTherapist_save_status:
  "TherapistAuth_findById j (save_status i s d) = TherapistAuth_findById j d"
  by (simp add: TherapistAuth_findById_def save_status_def)

lemma findUser_save_status:
  "User_findById j (save_status i s d) = User_findById j d"
  by (simp add: User_findById_def save_status_def)

lemma findTherapist_save_currentSession:
  "TherapistAuth_findById i (save_currentSession i cs d) =
     map_option (\<lambda>t. t\<lparr>currentSession := Some cs\<rparr>) (TherapistAuth_findById i d)"
  by (simp add: TherapistAuth_findById_def save_currentSession_def find_id_map_same)

lemma findTherapist_save_currentSession_other:
  "i \<noteq> j \<Longrightarrow> TherapistAuth_findById j (save_currentSession i cs d) = TherapistAuth_findById j d"
  by (simp add: TherapistAuth_findById_def save_currentSession_def find_id_map_other)

lemma findAppointment_save_currentSession:
  "Appointment_findById j (save_currentSession i cs d) = Appointment_findById j d"
  by (simp add: Appointment_findById_def save_currentSession_def)

lemma findUser_save_currentSession:
  "User_findById j (save_currentSession i cs d) = User_findById j d"
  by (simp add: User_findById_def save_currentSession_def)

lemma configured_price_session:
  "configured_price (th\<lparr>currentSession := x\<rparr>) = configured_price th"
  by (simp add: configured_price_def)

lemma ex_find_appointment: "Appointment_findById 7 ex_db = Some ex_appointment"
  by code_simp

lemma ex_find_therapist: "TherapistAuth_findById 1 ex_db = Some ex_therapist"
  by code_simp

section \<open>End-session on an appointment that the ledger references\<close>

lemma end_session_referenced:
  assumes "Appointment_findById aid d = Some a"
    and "TherapistAuth_findById (therapistId a) d = Some th"
    and "currentSession th = Some cs" and "appointmentId cs = Some aid"
  shows "end_session now c aid d =
       (EndOk, save_currentSession (therapistId a)
                 \<lparr>isActive = True, appointmentId = None, startedAt = None, endsAt = Date (now + 10 * 60000)\<rparr>
                 (save_status aid Completed d))"
    and "TherapistAuth_findById (therapistId a)
           (save_currentSession (therapistId a)
              \<lparr>isActive = True, appointmentId = None, startedAt = None, endsAt = Date (now + 10 * 60000)\<rparr>
              (save_status aid Completed d)) =
         Some (th\<lparr>currentSession :=
           Some \<lparr>isActive = True, appointmentId = None, startedAt = None, endsAt = Date (now + 10 * 60000)\<rparr>\<rparr>)"
proof -
  have i: "a_id a = aid" and j: "t_id th = therapistId a"
    using assms by (auto dest: findAppointment_id findTherapist_id)
  show "end_session now c aid d =
       (EndOk, save_currentSession (therapistId a)
                 \<lparr>isActive = True, appointmentId = None, startedAt = None, endsAt = Date (now + 10 * 60000)\<rparr>
                 (save_status aid Completed d))"
    using assms i j by (simp add: end_session_def Let_def)
  show "TherapistAuth_findById (therapistId a)
           (save_currentSession (therapistId a)
              \<lparr>isActive = True, appointmentId = None, startedAt = None, endsAt = Date (now + 10 * 60000)\<rparr>
              (save_status aid Completed d)) =
         Some (th\<lparr>currentSession :=
           Some \<lparr>isActive = True, appointmentId = None, startedAt = None, endsAt = Date (now + 10 * 60000)\<rparr>\<rparr>)"
    using assms by (simp add: findTherapist_save_currentSession findTherapist_save_status)
qed

section \<open>End-session and the caller\<close>

text \<open>
  C10. The end-session handler never looks at the caller: two calls that differ only in
  the authenticated caller give the same response and the same store. Whoever calls it on
  an existing appointment leaves that appointment completed, and when the ledger of its
  therapist references the appointment, the call succeeds and leaves that ledger in
  cooldown until ten minutes after the call. All of this holds also for a caller that
  join-session rejects as neither the booking user nor the assigned therapist.
\<close>

theorem end_session_no_authorization:
  "end_session now c1 aid d = end_session now c2 aid d \<and>
   (\<forall>a. Appointment_findById aid d = Some a \<longrightarrow>
      map_option status (Appointment_findById aid (snd (end_session now c1 aid d))) = Some Completed) \<and>
   (\<forall>a th cs. Appointment_findById aid d = Some a \<and> TherapistAuth_findById (therapistId a) d = Some th \<and>
      currentSession th = Some cs \<and> appointmentId cs = Some aid \<longrightarrow>
      fst (end_session now c1 aid d) = EndOk \<and>
      map_option currentSession (TherapistAuth_findById (therapistId a) (snd (end_session now c1 aid d))) =
        Some (Some \<lparr>isActive = True, appointmentId = None, startedAt = None, endsAt = Date (now + 10 * 60000)\<rparr>)) \<and>
   (\<forall>a u th. Appointment_findById aid d = Some a \<and> User_findById (userId a) d = Some u \<and>
      TherapistAuth_findById (therapistId a) d = Some th \<and> c1 \<noteq> userId a \<and> c1 \<noteq> therapistId a \<longrightarrow>
      join_session now c1 aid d = NotAuthorized)"
proof (intro conjI allI impI)
  show "end_session now c1 aid d = end_session now c2 aid d"
    by (simp add: end_session_def)
next
  fix a assume a: "Appointment_findById aid d = Some a"
  then have i: "a_id a = aid" by (rule findAppointment_id)
  show "map_option status (Appointment_findById aid (snd (end_session now c1 aid d))) = Some Completed"
    using a i
    by (simp add: end_session_def Let_def findAppointment_save_status
        findAppointment_save_currentSession split: option.splits)
next
  fix a th cs
  assume h: "Appointment_findById aid d = Some a \<and> TherapistAuth_findById (therapistId a) d = Some th \<and>
      currentSession th = Some cs \<and> appointmentId cs = Some aid"
  then have 1: "Appointment_findById aid d = Some a" and 2: "TherapistAuth_findById (therapistId a) d = Some th"
    and 3: "currentSession th = Some cs" and 4: "appointmentId cs = Some aid"
    by simp_all
  show "fst (end_session now c1 aid d) = EndOk"
    by (simp add: end_session_referenced(1) [OF 1 2 3 4])
  show "map_option currentSession (TherapistAuth_findById (therapistId a) (snd (end_session now c1 aid d))) =
        Some (Some \<lparr>isActive = True, appointmentId = None, startedAt = None, endsAt = Date (now + 10 * 60000)\<rparr>)"
    unfolding end_session_referenced(1) [OF 1 2 3 4] snd_conv end_session_referenced(2) [OF 1 2 3 4]
    by simp
next
  fix a u th
  assume h: "Appointment_findById aid d = Some a \<and> User_findById (userId a) d = Some u \<and>
      TherapistAuth_findById (therapistId a) d = Some th \<and> c1 \<noteq> userId a \<and> c1 \<noteq> therapistId a"
  then have "u_id u = userId a" "t_id th = therapistId a"
    by (auto dest: findUser_id findTherapist_id)
  with h show "join_session now c1 aid d = NotAuthorized"
    by (auto simp: join_session_def Let_def)
qed

theorem end_session_no_authorization_witness:
  "end_session 1500000 3 7 ex_db = end_session 1500000 2 7 ex_db \<and>
   Appointment_findById 7 ex_db = Some ex_appointment \<and>
   map_option status (Appointment_findById 7 (snd (end_session 1500000 3 7 ex_db))) = Some Completed \<and>
   fst (end_session 1500000 3 7 ex_db) = EndOk \<and>
   map_option currentSession (TherapistAuth_findById (therapistId ex_appointment) (snd (end_session 1500000 3 7 ex_db))) =
     Some (Some \<lparr>isActive = True, appointmentId = None, startedAt = None, endsAt = Date (1500000 + 10 * 60000)\<rparr>) \<and>
   join_session 1500000 3 7 ex_db = NotAuthorized"
proof -
  note t = end_session_no_authorization [of 1500000 3 7 ex_db 2]
  have u: "User_findById (userId ex_appointment) ex_db = Some \<lparr>u_id = 2, u_name = ''teen'', u_email = ''teen@example.org''\<rparr>"
    by code_simp
  have th: "TherapistAuth_findById (therapistId ex_appointment) ex_db = Some ex_therapist"
    by code_simp
  have cs: "currentSession ex_therapist = Some ex_live \<and> appointmentId ex_live = Some 7"
    by code_simp
  have n: "(3::nat) \<noteq> userId ex_appointment \<and> (3::nat) \<noteq> therapistId ex_appointment"
    by code_simp
  from t ex_find_appointment u th cs n show ?thesis
    by blast
qed

section \<open>Booking against a busy therapist\<close>

lemma instant_book_while_busy:
  assumes "req_therapistId req = Some tid" and "TherapistAuth_findById tid d = Some th"
    and "currentSession th = Some cs" and "isActive cs" and "endsAt cs = Date e"
    and "clk_check env < e"
  shows "snd (instant_book tz env caller req d) = d"
    and "fst (instant_book tz env caller req d) \<noteq> Booked a c"
    and "(case req_duration req of None \<Rightarrow> 30 | Some n \<Rightarrow> n) \<in> {30, 60} \<Longrightarrow> configured_price th \<noteq> None \<Longrightarrow>
         fst (instant_book tz env caller req d) = TherapistBusy e"
  using assms
  by (auto simp: instant_book_def book_busy_check_def Let_def split: option.splits)

lemma instant_book_validation:
  assumes "req_therapistId req = Some tid" and "TherapistAuth_findById tid d = Some th"
  shows "(case req_duration req of None \<Rightarrow> 30 | Some n \<Rightarrow> n) = 0 \<Longrightarrow>
         instant_book tz env caller req d = (MissingFields, d)"
    and "(case req_duration req of None \<Rightarrow> 30 | Some n \<Rightarrow> n) \<notin> {0, 30, 60} \<Longrightarrow>
         instant_book tz env caller req d = (BadDuration, d)"
    and "(case req_duration req of None \<Rightarrow> 30 | Some n \<Rightarrow> n) \<in> {30, 60} \<Longrightarrow> configured_price th = None \<Longrightarrow>
         instant_book tz env caller req d = (PricingNotConfigured, d)"
  using assms
  by (auto simp: instant_book_def Let_def split: option.splits)

text \<open>
  C1. Take a booking request against a therapist whose ledger is active with an end
  after the clock reading of the busy check. When the request has passed the validation
  that the handler does first (a duration of 30 or 60, a configured price), the response
  is the busy conflict, its \<open>availableAt\<close> is the ledger's \<open>endsAt\<close>, which is after that
  clock reading, and the store is as it was: no appointment is created and the ledger is
  unchanged. A request that fails the validation gets the error of the first check it
  fails, and leaves the store as it was too.
\<close>

theorem instant_book_busy_conflict:
  assumes "req_therapistId req = Some tid" and "TherapistAuth_findById tid d = Some th"
    and "currentSession th = Some cs" and "isActive cs" and "endsAt cs = Date e"
    and "clk_check env < e"
  shows "((case req_duration req of None \<Rightarrow> 30 | Some n \<Rightarrow> n) \<in> {30, 60} \<and> configured_price th \<noteq> None \<longrightarrow>
        instant_book tz env caller req d = (TherapistBusy e, d) \<and> clk_check env \<le> e) \<and>
     snd (instant_book tz env caller req d) = d \<and>
     (\<forall>a c. fst (instant_book tz env caller req d) \<noteq> Booked a c) \<and>
     ((case req_duration req of None \<Rightarrow> 30 | Some n \<Rightarrow> n) = 0 \<longrightarrow>
        fst (instant_book tz env caller req d) = MissingFields) \<and>
     ((case req_duration req of None \<Rightarrow> 30 | Some n \<Rightarrow> n) \<notin> {0, 30, 60} \<longrightarrow>
        fst (instant_book tz env caller req d) = BadDuration) \<and>
     ((case req_duration req of None \<Rightarrow> 30 | Some n \<Rightarrow> n) \<in> {30, 60} \<and> configured_price th = None \<longrightarrow>
        fst (instant_book tz env caller req d) = PricingNotConfigured)"
proof -
  note b = instant_book_while_busy [OF assms]
  note v = instant_book_validation [OF assms(1,2)]
  have "instant_book tz env caller req d = (TherapistBusy e, d)"
    if "(case req_duration req of None \<Rightarrow> 30 | Some n \<Rightarrow> n) \<in> {30, 60}" "configured_price th \<noteq> None"
    using b(1) b(3) [OF that] by (simp add: prod_eq_iff)
  moreover have "fst (instant_book tz env caller req d) = MissingFields"
    if "(case req_duration req of None \<Rightarrow> 30 | Some n \<Rightarrow> n) = 0"
    using v(1) [OF that] by simp
  moreover have "fst (instant_book tz env caller req d) = BadDuration"
    if "(case req_duration req of None \<Rightarrow> 30 | Some n \<Rightarrow> n) \<notin> {0, 30, 60}"
    using v(2) [OF that] by simp
  moreover have "fst (instant_book tz env caller req d) = PricingNotConfigured"
    if "(case req_duration req of None \<Rightarrow> 30 | Some n \<Rightarrow> n) \<in> {30, 60}" "configured_price th = None"
    using v(3) [OF that] by simp
  ultimately show ?thesis
    using b(1) b(2) assms(6) by auto
qed

theorem instant_book_busy_conflict_witness:
  "instant_book 0 ex_env 2 \<lparr>req_therapistId = Some 1, req_duration = Some 30\<rparr> ex_db = (TherapistBusy 2800000, ex_db) \<and>
   instant_book 0 ex_env 2 \<lparr>req_therapistId = Some 1, req_duration = Some 45\<rparr> ex_db = (BadDuration, ex_db)"
proof -
  have 3: "currentSession ex_therapist = Some ex_live" by (simp add: ex_therapist_def)
  have 4: "isActive ex_live" by (simp add: ex_live_def)
  have 5: "endsAt ex_live = Date 2800000" by (simp add: ex_live_def)
  have 6: "clk_check ex_env < 2800000" by (simp add: ex_env_def)
  have 7: "configured_price ex_therapist \<noteq> None"
    by (simp add: configured_price_def ex_therapist_def)
  have a: "instant_book 0 ex_env 2 \<lparr>req_therapistId = Some 1, req_duration = Some 30\<rparr> ex_db = (TherapistBusy 2800000, ex_db)"
    using instant_book_busy_conflict [OF _ ex_find_therapist 3 4 5 6,
        of "\<lparr>req_therapistId = Some 1, req_duration = Some 30\<rparr>" 0 2] 7
    by simp
  have b: "instant_book 0 ex_env 2 \<lparr>req_therapistId = Some 1, req_duration = Some 45\<rparr> ex_db = (BadDuration, ex_db)"
    using instant_book_busy_conflict [OF _ ex_find_therapist 3 4 5 6,
        of "\<lparr>req_therapistId = Some 1, req_duration = Some 45\<rparr>" 0 2]
    by (simp add: prod_eq_iff)
  from a b show ?thesis ..
qed

section \<open>Cooldown after end-session\<close>

text \<open>
  C9. End-session at \<open>now\<close> on an appointment that the ledger of its therapist references
  answers with success and leaves that ledger active, without appointment, ending at
  \<open>now\<close> plus ten minutes. Until then no booking request for the therapist books: the
  store stays as it is, and a request that passes validation gets the busy conflict.
\<close>

theorem end_session_begins_cooldown:
  assumes "Appointment_findById aid d = Some a"
    and "TherapistAuth_findById (therapistId a) d = Some th"
    and "currentSession th = Some cs" and "appointmentId cs = Some aid"
  shows "fst (end_session now c aid d) = EndOk \<and>
     map_option currentSession (TherapistAuth_findById (therapistId a) (snd (end_session now c aid d))) =
       Some (Some \<lparr>isActive = True, appointmentId = None, startedAt = None, endsAt = Date (now + 10 * 60000)\<rparr>) \<and>
     (\<forall>tz env u req. req_therapistId req = Some (therapistId a) \<and> clk_check env < now + 10 * 60000 \<longrightarrow>
        snd (instant_book tz env u req (snd (end_session now c aid d))) = snd (end_session now c aid d) \<and>
        (\<forall>b j. fst (instant_book tz env u req (snd (end_session now c aid d))) \<noteq> Booked b j) \<and>
        ((case req_duration req of None \<Rightarrow> 30 | Some n \<Rightarrow> n) \<in> {30, 60} \<and> configured_price th \<noteq> None \<longrightarrow>
           fst (instant_book tz env u req (snd (end_session now c aid d))) = TherapistBusy (now + 10 * 60000)))"
proof -
  let ?cool = "\<lparr>isActive = True, appointmentId = None, startedAt = None, endsAt = Date (now + 10 * 60000)\<rparr>"
  let ?d' = "save_currentSession (therapistId a) ?cool (save_status aid Completed d)"
  have r: "end_session now c aid d = (EndOk, ?d')"
    by (rule end_session_referenced(1) [OF assms])
  have f: "TherapistAuth_findById (therapistId a) ?d' = Some (th\<lparr>currentSession := Some ?cool\<rparr>)"
    by (rule end_session_referenced(2) [OF assms])
  have b: "snd (instant_book tz env u req ?d') = ?d' \<and>
        (\<forall>b j. fst (instant_book tz env u req ?d') \<noteq> Booked b j) \<and>
        ((case req_duration req of None \<Rightarrow> 30 | Some n \<Rightarrow> n) \<in> {30, 60} \<and> configured_price th \<noteq> None \<longrightarrow>
           fst (instant_book tz env u req ?d') = TherapistBusy (now + 10 * 60000))"
    if "req_therapistId req = Some (therapistId a)" "clk_check env < now + 10 * 60000" for tz env u req
    using instant_book_while_busy [OF that(1) f _ _ _ that(2), of ?cool tz u]
    by (simp add: configured_price_session)
  show ?thesis
    using r f b by simp
qed

theorem end_session_begins_cooldown_witness:
  "fst (end_session 1050000 2 7 ex_db) = EndOk \<and>
   map_option currentSession (TherapistAuth_findById 1 (snd (end_session 1050000 2 7 ex_db))) =
     Some (Some \<lparr>isActive = True, appointmentId = None, startedAt = None, endsAt = Date 1650000\<rparr>) \<and>
   fst (instant_book 0 ex_env 2 \<lparr>req_therapistId = Some 1, req_duration = Some 30\<rparr>
          (snd (end_session 1050000 2 7 ex_db))) = TherapistBusy 1650000"
proof -
  have 2: "TherapistAuth_findById (therapistId ex_appointment) ex_db = Some ex_therapist" by code_simp
  have 3: "currentSession ex_therapist = Some ex_live" by (simp add: ex_therapist_def)
  have 4: "appointmentId ex_live = Some 7" by (simp add: ex_live_def)
  have 5: "therapistId ex_appointment = 1" by (simp add: ex_appointment_def)
  have 6: "req_therapistId \<lparr>req_therapistId = Some 1, req_duration = Some 30\<rparr> = Some (therapistId ex_appointment) \<and>
           clk_check ex_env < 1050000 + 10 * 60000"
    by (simp add: ex_appointment_def ex_env_def)
  have 7: "(case req_duration \<lparr>req_therapistId = Some 1, req_duration = Some 30\<rparr> of None \<Rightarrow> 30 | Some n \<Rightarrow> n) \<in> {30, 60::int}
      \<and> configured_price ex_therapist \<noteq> None"
    by (simp add: configured_price_def ex_therapist_def)
  from end_session_begins_cooldown [OF ex_find_appointment 2 3 4, of 1050000 2] 5 6 7
  show ?thesis by simp
qed

section \<open>A ledger that is active without an end\<close>



section \<open>End-session and the status of the appointment\<close>

text \<open>
  C2. End-session writes \<open>completed\<close> whatever the status was: on the cancelled
  appointment of the example it answers with success and the appointment is completed
  afterwards.
\<close>

theorem end_session_leaves_terminal_state:
  "map_option status (Appointment_findById 7 ex_cancelled_db) = Some Cancelled \<and>
   fst (end_session 1500000 2 7 ex_cancelled_db) = EndOk \<and>
   map_option status (Appointment_findById 7 (snd (end_session 1500000 2 7 ex_cancelled_db))) = Some Completed"
  by code_simp

text \<open>
  C3. The first end-session on the appointment of the example succeeds and puts the
  ledger in cooldown, where \<open>appointmentId\<close> is \<open>null\<close>. The second call saves the status
  again and then reads \<open>appointmentId.toString()\<close>: it ends in the error response.
\<close>

theorem end_session_twice_errors:
  "fst (end_session 1500000 2 7 ex_db) = EndOk \<and>
   map_option status (Appointment_findById 7 (snd (end_session 1500000 2 7 ex_db))) = Some Completed \<and>
   fst (end_session 1500001 2 7 (snd (end_session 1500000 2 7 ex_db))) = EndError \<and>
   map_option status (Appointment_findById 7
      (snd (end_session 1500001 2 7 (snd (end_session 1500000 2 7 ex_db))))) = Some Completed"
  by code_simp

section \<open>The charged amount\<close>

text \<open>
  C7. The amount is computed in binary64: \<open>500 / 30\<close> rounds up to
  \<open>4691249611844267 / 2 ^ 48\<close>, the product with 30 rounds to a value above 500, and its
  ceiling is 501. A 30-minute booking with a therapist whose price is 500 is charged 501,
  a 60-minute booking 1001; at a price of 333 the 60-minute booking is charged 666.
\<close>

theorem booking_amount_rounds_up_whole_prices:
  "booking_amount 500 30 = 501 \<and> booking_amount 500 60 = 1001 \<and> booking_amount 333 60 = 666 \<and>
   map_option configured_price (TherapistAuth_findById 1 ex_idle_db) = Some (Some 500) \<and>
   fst (instant_book 0 ex_env 2 \<lparr>req_therapistId = Some 1, req_duration = Some 30\<rparr> ex_idle_db) =
     Booked (new_appointment 0 ex_env 2 ex_therapist 500 30) 1400000 \<and>
   amount (payment (new_appointment 0 ex_env 2 ex_therapist 500 30)) = 501"
  by code_simp

section \<open>The tick when no store operation fails\<close>

lemma process_session_eq:
  "process_session tz now s d =
     (case sessionEndTime tz s of None \<Rightarrow> Threw d
      | Some sessionEnd \<Rightarrow>
          if now > sessionEnd then
            (let d1 = save_status (a_id s) Completed d in
             case TherapistAuth_findById (therapistId s) d1 of None \<Rightarrow> Done d1
             | Some th \<Rightarrow>
                 (case currentSession th of None \<Rightarrow> Done d1
                  | Some cs \<Rightarrow>
                      if isActive cs then
                        (case appointmentId cs of None \<Rightarrow> Threw d1
                         | Some i \<Rightarrow>
                             if i = a_id s then Done (save_currentSession (t_id th) idle_session d1)
                             else Done d1)
                      else Done d1))
          else Done d)"
  by (auto simp: process_session_def process_session_f_def no_fault_def Let_def split: option.splits)

lemma sweep_sessions_Nil: "sweep_sessions tz now [] d = Done d"
  by (simp add: sweep_sessions_def)

lemma sweep_sessions_Cons:
  "sweep_sessions tz now (s # ss) d =
     (case process_session tz now s d of
        Threw d' \<Rightarrow> Threw d'
      | Done d' \<Rightarrow> sweep_sessions tz now ss d')"
  by (simp add: sweep_sessions_def process_session_def split: outcome.splits)

section \<open>A throw inside a tick\<close>

lemma sweep_sessions_f_append:
  "sweep_sessions_f flt tz now (xs @ ys) d =
     (case sweep_sessions_f flt tz now xs d of
        Threw d' \<Rightarrow> Threw d'
      | Done d' \<Rightarrow> sweep_sessions_f flt tz now ys d')"
  by (induction xs arbitrary: d) (auto split: outcome.splits)

lemma sweep_therapists_f_append:
  "sweep_therapists_f flt now (xs @ ys) d =
     (case sweep_therapists_f flt now xs d of
        Threw d' \<Rightarrow> Threw d'
      | Done d' \<Rightarrow> sweep_therapists_f flt now ys d')"
  by (induction xs arbitrary: d) (auto split: outcome.splits)

lemma process_session_f_Threw:
  "process_session_f flt tz now s d = Threw d' \<Longrightarrow> d' = d \<or> d' = save_status (a_id s) Completed d"
  by (auto simp: process_session_f_def Let_def split: option.splits if_splits)

lemma process_therapist_f_Threw:
  "process_therapist_f flt now t d = Threw d' \<Longrightarrow> d' = d"
  by (auto simp: process_therapist_f_def clear_if_expired_def split: option.splits js_date.splits if_splits)

text \<open>
  C8, as the job has it. The two loops of a tick and its two queries run inside the one
  \<open>try\<close> of the job, and no step has a handler of its own. When the step of an
  appointment throws, after the appointments before it have been processed, the tick ends
  there: the store is the one those steps left, but for the status of the throwing
  appointment, which is saved or not depending on where the step threw; the remaining
  appointments are not processed and no ledger is swept. When the step of a therapist
  throws in the second loop, the tick ends with the store as the therapists before it
  left it, and the remaining ledgers are not swept. A failing query ends the tick in the
  same way. The tick itself does not throw.
\<close>

theorem sweep_stops_at_throw:
  "(flt FindAppointments \<longrightarrow> sweep_tick_f flt tz now d = Threw d) \<and>
   (\<forall>xs s ys d1 d2. \<not> flt FindAppointments \<and> expiredSessions now d = xs @ s # ys \<and>
      sweep_sessions_f flt tz now xs d = Done d1 \<and> process_session_f flt tz now s d1 = Threw d2 \<longrightarrow>
      sweep_tick_f flt tz now d = Threw d2 \<and>
      (d2 = d1 \<or> d2 = save_status (a_id s) Completed d1) \<and>
      therapists d2 = therapists d1 \<and>
      (\<forall>a \<in> set (appointments d1). a_id a \<noteq> a_id s \<longrightarrow> a \<in> set (appointments d2))) \<and>
   (\<forall>d1. \<not> flt FindAppointments \<and> sweep_sessions_f flt tz now (expiredSessions now d) d = Done d1 \<and>
      flt FindTherapists \<longrightarrow> sweep_tick_f flt tz now d = Threw d1) \<and>
   (\<forall>d1 ts t us d2 d3. \<not> flt FindAppointments \<and>
      sweep_sessions_f flt tz now (expiredSessions now d) d = Done d1 \<and> \<not> flt FindTherapists \<and>
      activeTherapists d1 = ts @ t # us \<and> sweep_therapists_f flt now ts d1 = Done d2 \<and>
      process_therapist_f flt now t d2 = Threw d3 \<longrightarrow>
      sweep_tick_f flt tz now d = Threw d2 \<and> d3 = d2)"
proof (intro conjI allI impI)
  show "sweep_tick_f flt tz now d = Threw d" if "flt FindAppointments"
    using that by (simp add: sweep_tick_f_def)
next
  fix xs s ys d1 d2
  assume h: "\<not> flt FindAppointments \<and> expiredSessions now d = xs @ s # ys \<and>
      sweep_sessions_f flt tz now xs d = Done d1 \<and> process_session_f flt tz now s d1 = Threw d2"
  then have p: "sweep_sessions_f flt tz now (expiredSessions now d) d = Threw d2"
    by (simp add: sweep_sessions_f_append)
  with h show "sweep_tick_f flt tz now d = Threw d2"
    by (simp add: sweep_tick_f_def)
  from h have e: "d2 = d1 \<or> d2 = save_status (a_id s) Completed d1"
    by (blast dest: process_session_f_Threw)
  then show "d2 = d1 \<or> d2 = save_status (a_id s) Completed d1" .
  from e show "therapists d2 = therapists d1"
    by (auto simp: save_status_def)
  from e show "\<forall>a \<in> set (appointments d1). a_id a \<noteq> a_id s \<longrightarrow> a \<in> set (appointments d2)"
    by (force simp: save_status_def)
next
  fix d1
  assume "\<not> flt FindAppointments \<and> sweep_sessions_f flt tz now (expiredSessions now d) d = Done d1 \<and>
      flt FindTherapists"
  then show "sweep_tick_f flt tz now d = Threw d1"
    by (simp add: sweep_tick_f_def)
next
  fix d1 ts t us d2 d3
  assume h: "\<not> flt FindAppointments \<and>
      sweep_sessions_f flt tz now (expiredSessions now d) d = Done d1 \<and> \<not> flt FindTherapists \<and>
      activeTherapists d1 = ts @ t # us \<and> sweep_therapists_f flt now ts d1 = Done d2 \<and>
      process_therapist_f flt now t d2 = Threw d3"
  then show e: "d3 = d2"
    by (blast dest: process_therapist_f_Threw)
  from h have "sweep_therapists_f flt now (activeTherapists d1) d1 = Threw d3"
    by (simp add: sweep_therapists_f_append)
  with h e show "sweep_tick_f flt tz now d = Threw d2"
    by (simp add: sweep_tick_f_def)
qed

theorem sweep_stops_at_throw_witness:
  "sweep_tick_f no_fault 0 2820000 ex_sweep_db = Threw (save_status 7 Completed ex_sweep_db) \<and>
   ex_appointment9 \<in> set (appointments (save_status 7 Completed ex_sweep_db)) \<and>
   sweep_tick_f ex_fault 0 4020000 ex_ended_db = Threw ex_ended_db"
proof -
  have 0: "\<not> no_fault FindAppointments" "\<not> ex_fault FindAppointments" "\<not> ex_fault FindTherapists"
    by (simp_all add: no_fault_def ex_fault_def)
  have 1: "expiredSessions 2820000 ex_sweep_db = [] @ ex_appointment # [ex_appointment9]"
    by code_simp
  have 2: "sweep_sessions_f no_fault 0 2820000 [] ex_sweep_db = Done ex_sweep_db"
    by simp
  have 3: "process_session_f no_fault 0 2820000 ex_appointment ex_sweep_db = Threw (save_status 7 Completed ex_sweep_db)"
    by code_simp
  have 4: "ex_appointment9 \<in> set (appointments ex_sweep_db) \<and> a_id ex_appointment9 \<noteq> a_id ex_appointment"
    by code_simp
  note t = sweep_stops_at_throw [of no_fault 0 2820000 ex_sweep_db]
  from t 0(1) 1 2 3 have a: "sweep_tick_f no_fault 0 2820000 ex_sweep_db = Threw (save_status 7 Completed ex_sweep_db)"
    by blast
  from t 0(1) 1 2 3 4 have b: "ex_appointment9 \<in> set (appointments (save_status 7 Completed ex_sweep_db))"
    by blast
  have 5: "sweep_sessions_f ex_fault 0 4020000 (expiredSessions 4020000 ex_ended_db) ex_ended_db = Done ex_ended_db"
    by code_simp
  have 6: "activeTherapists ex_ended_db = [] @ hd (therapists ex_ended_db) # tl (therapists ex_ended_db)"
    by code_simp
  have 7: "sweep_therapists_f ex_fault 4020000 [] ex_ended_db = Done ex_ended_db"
    by simp
  have 8: "process_therapist_f ex_fault 4020000 (hd (therapists ex_ended_db)) ex_ended_db = Threw ex_ended_db"
    by code_simp
  note u = sweep_stops_at_throw [of ex_fault 0 4020000 ex_ended_db]
  from u 0(2,3) 5 6 7 8 have c: "sweep_tick_f ex_fault 0 4020000 ex_ended_db = Threw ex_ended_db"
    by blast
  from a b c show ?thesis by blast
qed

text \<open>
  In the example the tick at 2820000 finds the appointments 7 and 9 overdue. The step of
  7 throws on the \<open>null\<close> appointment of the cooldown ledger. The step of 9 would have
  completed it and cleared the ledger of therapist 4; after the tick appointment 9 is
  still scheduled and no ledger has changed. In the second example both ledgers are due
  at 4020000; the save of therapist 1 fails, and the ledger of therapist 4, whose step
  would have cleared it, is still active after the tick.
\<close>

theorem sweep_aborts_counterexample:
  "map_option currentSession (TherapistAuth_findById 1 ex_sweep_db) =
     Some (Some \<lparr>isActive = True, appointmentId = None, startedAt = None, endsAt = Date 3400010\<rparr>) \<and>
   expiredSessions 2820000 ex_sweep_db = [ex_appointment, ex_appointment9] \<and>
   process_session 0 2820000 ex_appointment ex_sweep_db = Threw (save_status 7 Completed ex_sweep_db) \<and>
   sessionEndTime 0 ex_appointment9 = Some 2760000 \<and>
   process_session 0 2820000 ex_appointment9 (save_status 7 Completed ex_sweep_db) =
     Done (save_currentSession 4 idle_session (save_status 9 Completed (save_status 7 Completed ex_sweep_db))) \<and>
   sweep_tick 0 2820000 ex_sweep_db = Threw (save_status 7 Completed ex_sweep_db) \<and>
   map_option status (Appointment_findById 9 (store_of (sweep_tick 0 2820000 ex_sweep_db))) = Some Scheduled \<and>
   therapists (store_of (sweep_tick 0 2820000 ex_sweep_db)) = therapists ex_sweep_db \<and>
   map_option currentSession (TherapistAuth_findById 4 ex_ended_db) =
     Some (Some \<lparr>isActive = True, appointmentId = None, startedAt = None, endsAt = Date 3390000\<rparr>) \<and>
   map_option (\<lambda>t. process_therapist_f ex_fault 4020000 t ex_ended_db) (TherapistAuth_findById 4 ex_ended_db) =
     Some (Done (save_currentSession 4 idle_session ex_ended_db)) \<and>
   sweep_tick_f ex_fault 0 4020000 ex_ended_db = Threw ex_ended_db"
  by code_simp

section \<open>The sweeper on an overdue appointment\<close>

lemma setHours_own_time_le: "setHours tz t (getHours tz t) (getMinutes tz t) \<le> t"
proof -
  define L where "L = t + tz"
  have a: "L = (L div 86400000) * 86400000 + L mod 86400000" by simp
  have b: "L mod 86400000 = ((L mod 86400000) div 3600000) * 3600000 + (L mod 86400000) mod 3600000"
    by simp
  have c: "(L mod 86400000) mod 3600000 = L mod 3600000"
    by (rule mod_mod_cancel) simp
  have d: "((L mod 3600000) div 60000) * 60000 \<le> L mod 3600000"
    by simp
  from a b c d have "(L div 86400000) * 86400000 + ((L mod 86400000) div 3600000) * 3600000
      + ((L mod 3600000) div 60000) * 60000 \<le> L"
    by linarith
  then show ?thesis
    by (simp add: setHours_def getHours_def getMinutes_def L_def)
qed

lemma sessionEndTime_le:
  "startTime s = Some (getHours tz (date s), getMinutes tz (date s)) \<Longrightarrow>
   \<exists>e. sessionEndTime tz s = Some e \<and> e \<le> date s + duration s * 60000"
  using setHours_own_time_le [of tz "date s"] by (simp add: sessionEndTime_def)

lemma findAppointment_process_session:
  "Appointment_findById i (store_of (process_session tz now s d)) =
     (if (\<exists>e. sessionEndTime tz s = Some e \<and> e < now) \<and> a_id s = i
      then map_option (\<lambda>a. a\<lparr>status := Completed\<rparr>) (Appointment_findById i d)
      else Appointment_findById i d)"
  by (cases "a_id s = i")
    (auto simp: process_session_eq store_of_def Let_def findAppointment_save_status
      findAppointment_save_status_other findAppointment_save_currentSession split: option.splits)

lemma process_session_keeps_completed:
  "map_option status (Appointment_findById i d) = Some Completed \<Longrightarrow>
   map_option status (Appointment_findById i (store_of (process_session tz now s d))) = Some Completed"
  by (auto simp: findAppointment_process_session)

lemma sweep_sessions_keeps_completed:
  "sweep_sessions tz now xs d = Done d' \<Longrightarrow>
   map_option status (Appointment_findById i d) = Some Completed \<Longrightarrow>
   map_option status (Appointment_findById i d') = Some Completed"
proof (induction xs arbitrary: d)
  case Nil
  then show ?case by (simp add: sweep_sessions_Nil)
next
  case (Cons x xs)
  from Cons.prems(1) obtain d1 where 1: "process_session tz now x d = Done d1"
    and 2: "sweep_sessions tz now xs d1 = Done d'"
    by (auto simp: sweep_sessions_Cons split: outcome.splits)
  from process_session_keeps_completed [OF Cons.prems(2), of tz now x] 1
  have "map_option status (Appointment_findById i d1) = Some Completed"
    by (simp add: store_of_def)
  with Cons.IH 2 show ?case by blast
qed

lemma sweep_sessions_completes:
  "sweep_sessions tz now xs d = Done d' \<Longrightarrow> s \<in> set xs \<Longrightarrow>
   sessionEndTime tz s = Some e \<Longrightarrow> e < now \<Longrightarrow>
   Appointment_findById (a_id s) d \<noteq> None \<Longrightarrow>
   map_option status (Appointment_findById (a_id s) d') = Some Completed"
proof (induction xs arbitrary: d)
  case Nil
  then show ?case by simp
next
  case (Cons x xs)
  from Cons.prems(1) obtain d1 where 1: "process_session tz now x d = Done d1"
    and 2: "sweep_sessions tz now xs d1 = Done d'"
    by (auto simp: sweep_sessions_Cons split: outcome.splits)
  have f: "Appointment_findById (a_id s) d1 =
     (if (\<exists>e. sessionEndTime tz x = Some e \<and> e < now) \<and> a_id x = a_id s
      then map_option (\<lambda>a. a\<lparr>status := Completed\<rparr>) (Appointment_findById (a_id s) d)
      else Appointment_findById (a_id s) d)"
    using findAppointment_process_session [of "a_id s" tz now x d] 1 by (simp add: store_of_def)
  show ?case
  proof (cases "x = s")
    case True
    with f Cons.prems have "map_option status (Appointment_findById (a_id s) d1) = Some Completed"
      by auto
    with 2 show ?thesis by (rule sweep_sessions_keeps_completed)
  next
    case False
    with Cons.prems have "s \<in> set xs" by simp
    moreover from f Cons.prems(5) have "Appointment_findById (a_id s) d1 \<noteq> None"
      by (auto split: if_splits)
    ultimately show ?thesis using Cons.IH 2 Cons.prems(3,4) by blast
  qed
qed

lemma member_findAppointment: "s \<in> set (appointments d) \<Longrightarrow> Appointment_findById (a_id s) d \<noteq> None"
  by (auto simp: Appointment_findById_def find_None_iff)

text \<open>
  C4, as the sweeper has it. Take a scheduled appointment of the store whose \<open>startTime\<close>
  is the hour and minute of its \<open>date\<close> and whose end, \<open>date\<close> plus duration, is before
  \<open>now\<close>. The tick scans it. Its step marks it completed, and when the ledger of its
  therapist is active and references it, the step saves the idle ledger (not a cooldown)
  and nothing else. A pass over the scanned appointments that does not throw leaves the
  appointment completed.
\<close>

theorem sweep_overdue_appointment:
  assumes "s \<in> set (appointments d)" and "status s = Scheduled" and "0 \<le> duration s"
    and "date s + duration s * 60000 < now"
    and "startTime s = Some (getHours tz (date s), getMinutes tz (date s))"
  shows "s \<in> set (expiredSessions now d) \<and>
     (\<forall>d1. Appointment_findById (a_id s) d1 \<noteq> None \<longrightarrow>
        map_option status (Appointment_findById (a_id s) (store_of (process_session tz now s d1))) = Some Completed) \<and>
     (\<forall>d1 th cs. TherapistAuth_findById (therapistId s) d1 = Some th \<and> currentSession th = Some cs \<and>
        isActive cs \<and> appointmentId cs = Some (a_id s) \<longrightarrow>
        process_session tz now s d1 =
          Done (save_currentSession (therapistId s) idle_session (save_status (a_id s) Completed d1)) \<and>
        map_option currentSession (TherapistAuth_findById (therapistId s) (store_of (process_session tz now s d1))) =
          Some (Some idle_session)) \<and>
     (\<forall>d'. sweep_sessions tz now (expiredSessions now d) d = Done d' \<longrightarrow>
        map_option status (Appointment_findById (a_id s) d') = Some Completed)"
proof -
  from sessionEndTime_le [OF assms(5)] assms(4)
  obtain e where over: "sessionEndTime tz s = Some e" "e < now"
    by fastforce
  have m: "s \<in> set (expiredSessions now d)"
    using assms by (simp add: expiredSessions_def)
  have st: "map_option status (Appointment_findById (a_id s) (store_of (process_session tz now s d1))) = Some Completed"
    if "Appointment_findById (a_id s) d1 \<noteq> None" for d1
    using that over by (auto simp: findAppointment_process_session)
  have led: "process_session tz now s d1 =
          Done (save_currentSession (therapistId s) idle_session (save_status (a_id s) Completed d1)) \<and>
        map_option currentSession (TherapistAuth_findById (therapistId s) (store_of (process_session tz now s d1))) =
          Some (Some idle_session)"
    if "TherapistAuth_findById (therapistId s) d1 = Some th \<and> currentSession th = Some cs \<and>
        isActive cs \<and> appointmentId cs = Some (a_id s)" for d1 th cs
  proof -
    have j: "t_id th = therapistId s" using that by (auto dest: findTherapist_id)
    have "process_session tz now s d1 =
          Done (save_currentSession (therapistId s) idle_session (save_status (a_id s) Completed d1))"
      using that over j by (simp add: process_session_eq Let_def findTherapist_save_status)
    then show ?thesis
      using that by (simp add: store_of_def findTherapist_save_currentSession findTherapist_save_status)
  qed
  have pass: "map_option status (Appointment_findById (a_id s) d') = Some Completed"
    if "sweep_sessions tz now (expiredSessions now d) d = Done d'" for d'
    using sweep_sessions_completes [OF that m over member_findAppointment [OF assms(1)]] .
  show ?thesis
    using m st led pass by blast
qed

theorem sweep_overdue_appointment_witness:
  "ex_appointment \<in> set (expiredSessions 2820000 ex_db) \<and>
   process_session 0 2820000 ex_appointment ex_db =
     Done (save_currentSession 1 idle_session (save_status 7 Completed ex_db)) \<and>
   map_option status (Appointment_findById 7 (store_of (process_session 0 2820000 ex_appointment ex_db))) =
     Some Completed \<and>
   map_option currentSession (TherapistAuth_findById 1 (store_of (process_session 0 2820000 ex_appointment ex_db))) =
     Some (Some idle_session)"
proof -
  have 1: "ex_appointment \<in> set (appointments ex_db)" by (simp add: ex_db_def)
  have 2: "status ex_appointment = Scheduled" by (simp add: ex_appointment_def)
  have 3: "0 \<le> duration ex_appointment" by (simp add: ex_appointment_def)
  have 4: "date ex_appointment + duration ex_appointment * 60000 < 2820000" by (simp add: ex_appointment_def)
  have 5: "startTime ex_appointment = Some (getHours 0 (date ex_appointment), getMinutes 0 (date ex_appointment))"
    by code_simp
  have 6: "TherapistAuth_findById (therapistId ex_appointment) ex_db = Some ex_therapist \<and>
     currentSession ex_therapist = Some ex_live \<and> isActive ex_live \<and>
     appointmentId ex_live = Some (a_id ex_appointment)"
    by code_simp
  have 7: "Appointment_findById (a_id ex_appointment) ex_db \<noteq> None" by code_simp
  have 8: "a_id ex_appointment = 7 \<and> therapistId ex_appointment = 1" by (simp add: ex_appointment_def)
  from sweep_overdue_appointment [OF 1 2 3 4 5] 6 7 8 show ?thesis
    by (metis (no_types, lifting))
qed

text \<open>
  After the tick at 2820000 the ledger of the example's therapist is idle; after
  end-session at the same instant it is active until 3420000.
\<close>

theorem sweep_clears_ledger_counterexample:
  "status ex_appointment = Scheduled \<and>
   date ex_appointment + duration ex_appointment * 60000 < 2820000 \<and>
   map_option currentSession (TherapistAuth_findById 1 ex_db) = Some (Some ex_live) \<and>
   appointmentId ex_live = Some (a_id ex_appointment) \<and>
   sweep_tick 0 2820000 ex_db = Done (save_currentSession 1 idle_session (save_status 7 Completed ex_db)) \<and>
   map_option currentSession (TherapistAuth_findById 1 (store_of (sweep_tick 0 2820000 ex_db))) =
     Some (Some \<lparr>isActive = False, appointmentId = None, startedAt = None, endsAt = Null\<rparr>) \<and>
   map_option currentSession (TherapistAuth_findById 1 (snd (end_session 2820000 2 7 ex_db))) =
     Some (Some \<lparr>isActive = True, appointmentId = None, startedAt = None, endsAt = Date 3420000\<rparr>)"
  by code_simp

section \<open>Rounding to binary64\<close>

lemma rne_of_int: "rne (of_int n) = n"
  by (simp add: rne_def)

lemma rne_error: "\<bar>of_int (rne x) - x\<bar> \<le> 1 / 2"
proof -
  have "of_int \<lfloor>x\<rfloor> \<le> x" "x < of_int \<lfloor>x\<rfloor> + 1"
    by linarith+
  then show ?thesis
    by (auto simp: rne_def Let_def)
qed

lemma ilog2_bounds:
  assumes "0 < x"
  shows "2 powi (ilog2 x) \<le> x \<and> x < 2 powi (ilog2 x + 1)"
proof (cases "1 \<le> x")
  case True
  define n where "n = \<lfloor>x\<rfloor>"
  have n: "1 \<le> n" using True by (simp add: n_def)
  then have b: "1 \<le> bitlen n" by (simp add: bitlen_ge_iff_power)
  from bitlen_bounds [of n] n have lo: "2 ^ nat (bitlen n - 1) \<le> n" and hi: "n < 2 ^ nat (bitlen n)"
    by auto
  have i: "ilog2 x = bitlen n - 1" using True by (simp add: ilog2_def n_def)
  have "(2::rat) powi (bitlen n - 1) = of_int (2 ^ nat (bitlen n - 1))"
    using b by (simp add: power_int_nonneg_exp)
  also have "\<dots> \<le> of_int n" using lo by (simp only: of_int_le_iff)
  also have "\<dots> \<le> x" by (simp add: n_def)
  finally have 1: "2 powi (ilog2 x) \<le> x" by (simp add: i)
  have "x < of_int (n + 1)" unfolding n_def by linarith
  also have "\<dots> \<le> of_int (2 ^ nat (bitlen n))" using hi by (simp only: of_int_le_iff)
  also have "\<dots> = (2::rat) powi (bitlen n)" using b by (simp add: power_int_nonneg_exp)
  finally have 2: "x < 2 powi (ilog2 x + 1)" by (simp add: i)
  from 1 2 show ?thesis ..
next
  case False
  define m where "m = \<lceil>1 / x\<rceil> - 1"
  have x1: "1 < 1 / x" using False assms by simp
  then have m: "1 \<le> m" unfolding m_def by linarith 
  then have b: "1 \<le> bitlen m" by (simp add: bitlen_ge_iff_power)
  from bitlen_bounds [of m] m have lo: "2 ^ nat (bitlen m - 1) \<le> m" and hi: "m < 2 ^ nat (bitlen m)"
    by auto
  have i: "ilog2 x = - bitlen m" using False by (simp add: ilog2_def m_def)
  have "1 / x \<le> of_int (m + 1)" unfolding m_def by simp
  also have "\<dots> \<le> of_int (2 ^ nat (bitlen m))" using hi by (simp only: of_int_le_iff)
  also have "\<dots> = (2::rat) powi (bitlen m)" using b by (simp add: power_int_nonneg_exp)
  finally have "1 / x \<le> 2 powi (bitlen m)" .
  then have "1 / (2 powi (bitlen m)) \<le> x"
    using assms by (simp add: field_simps)
  then have 1: "2 powi (ilog2 x) \<le> x" by (simp add: i power_int_minus_divide)
  have "(2::rat) powi (bitlen m - 1) = of_int (2 ^ nat (bitlen m - 1))"
    using b by (simp add: power_int_nonneg_exp)
  also have "\<dots> \<le> of_int m" using lo by (simp only: of_int_le_iff)
  also have "\<dots> < 1 / x" unfolding m_def by linarith
  finally have "(2::rat) powi (bitlen m - 1) < 1 / x" .
  then have "x < 1 / (2 powi (bitlen m - 1))"
    using assms by (simp add: field_simps)
  also have "\<dots> = 2 powi (- (bitlen m - 1))" by (simp only: power_int_minus_divide)
  finally have 2: "x < 2 powi (ilog2 x + 1)" by (simp add: i)
  from 1 2 show ?thesis ..
qed

lemma powi2_less_cancel: "(2::rat) powi a < 2 powi b \<Longrightarrow> a < b"
proof (rule ccontr)
  assume l: "(2::rat) powi a < 2 powi b" and "\<not> a < b"
  then have "b \<le> a" by simp
  then have "(2::rat) powi b \<le> 2 powi a" by (rule power_int_increasing) simp
  with l show False by simp
qed

lemma round_double_of_int:
  assumes "0 < n" and "n < 2 ^ 53"
  shows "round_double (of_int n) = of_int n"
proof -
  have x1: "(1::rat) \<le> of_int n" using assms(1) by simp
  have "bitlen n \<le> 53" using assms(2) by (simp add: bitlen_le_iff_power)
  moreover have "ilog2 (of_int n) = bitlen n - 1" using x1 by (simp add: ilog2_def)
  ultimately have le0: "max (ilog2 (of_int n) - 52) (- 1074) \<le> 0" by simp
  define k where "k = nat (- max (ilog2 (of_int n) - 52) (- 1074))"
  have k: "max (ilog2 (of_int n) - 52) (- 1074) = - int k"
    using le0 by (simp add: k_def)
  have p: "(2::rat) powi (- int k) = 1 / 2 ^ k"
    by (simp add: power_int_minus_divide)
  have "of_int n / (2::rat) powi (- int k) = of_int (n * 2 ^ k)"
    by (simp add: p)
  then have "rne (of_int n / (2::rat) powi (- int k)) = n * 2 ^ k"
    by (simp only: rne_of_int)
  then have "round_pos (of_int n) = of_int n"
    by (simp add: round_pos_def Let_def k p)
  then show ?thesis
    using assms(1) by (simp add: round_double_def)
qed

lemma round_double_error:
  assumes "2 powi l \<le> x" and "- 1022 \<le> l"
  shows "\<bar>round_double x - x\<bar> \<le> x / 2 ^ 53"
proof -
  have "(0::rat) < 2 powi l" by simp
  with assms(1) have pos: "0 < x" by linarith
  from ilog2_bounds [OF pos] have lo: "2 powi (ilog2 x) \<le> x" and hi: "x < 2 powi (ilog2 x + 1)"
    by auto
  from assms(1) hi have "(2::rat) powi l < 2 powi (ilog2 x + 1)" by linarith
  then have "l < ilog2 x + 1" by (rule powi2_less_cancel)
  with assms(2) have e: "max (ilog2 x - 52) (- 1074) = ilog2 x - 52" by simp
  define e where "e = ilog2 x - 52"
  define y where "y = x / 2 powi e"
  have pe: "0 < (2::rat) powi e" by simp
  have xy: "y * 2 powi e = x" by (simp add: y_def)
  have "round_pos x = of_int (rne y) * 2 powi e"
    unfolding round_pos_def Let_def e y_def e_def ..
  then have "round_double x - x = (of_int (rne y) - y) * 2 powi e"
    using pos xy by (simp add: round_double_def left_diff_distrib)
  then have "\<bar>round_double x - x\<bar> = \<bar>of_int (rne y) - y\<bar> * 2 powi e"
    using pe by (simp add: abs_mult)
  also have "\<dots> \<le> (1 / 2) * 2 powi e"
    using rne_error [of y] pe by (intro mult_right_mono) auto
  also have "2 powi e = (2::rat) powi (ilog2 x) / 2 ^ 52"
    by (simp add: e_def power_int_diff)
  also have "(1 / 2) * (2 powi (ilog2 x) / 2 ^ 52) \<le> (1 / 2) * (x / 2 ^ 52)"
    using lo by (intro mult_left_mono divide_right_mono) auto
  finally show ?thesis by simp
qed

lemma ceil_js_div_minute:
  assumes "0 < a" and "a < 2 ^ 53"
  shows "Math_ceil (js_div (of_int a) 60000) = \<lceil>(of_int a :: rat) / 60000\<rceil>"
proof -
  define x :: rat where "x = of_int a / 60000"
  define q where "q = a div 60000"
  define r where "r = a mod 60000"
  have a: "a = q * 60000 + r" by (simp add: q_def r_def)
  have r: "0 \<le> r" "r < 60000" by (simp_all add: r_def)
  have x: "x = of_int q + of_int r / 60000"
    by (simp add: x_def a)
  show ?thesis
  proof (cases "r = 0")
    case True
    with a assms have "0 < q" "q < 2 ^ 53" by auto
    then have "round_double (of_int q) = of_int q" by (rule round_double_of_int)
    with True x show ?thesis
      by (simp add: Math_ceil_def js_div_def x_def [symmetric])
  next
    case False
    with r have r1: "1 \<le> r" "r \<le> 59999" by auto
    have "(1::rat) \<le> of_int r" "(of_int r :: rat) \<le> 59999"
      using r1 by simp_all
    then have lo: "of_int q + 1 / 60000 \<le> x" and hi: "x \<le> of_int q + 1 - 1 / 60000"
      by (simp_all add: x field_simps)
    have "(1::rat) \<le> of_int a" using assms(1) by simp
    then have "(2::rat) powi (- 16) \<le> x"
      by (simp add: x_def power_int_minus_divide field_simps)
    then have "\<bar>round_double x - x\<bar> \<le> x / 2 ^ 53"
      by (rule round_double_error) simp
    moreover have "(of_int a :: rat) < 2 ^ 53"
      using assms(2) by (metis of_int_less_iff of_int_numeral of_int_power)
    then have "x / 2 ^ 53 < 1 / 60000"
      by (simp add: x_def field_simps)
    ultimately have e: "\<bar>round_double x - x\<bar> < 1 / 60000" by linarith
    from e have "x - 1 / 60000 < round_double x" "round_double x < x + 1 / 60000"
      by linarith+
    with lo hi have "of_int q < round_double x" "round_double x \<le> of_int q + 1"
      by linarith+
    then have "of_int (q + 1) - 1 < round_double x" "round_double x \<le> of_int (q + 1)"
      by simp_all
    then have "\<lceil>round_double x\<rceil> = q + 1" by (rule ceiling_unique)
    moreover from lo hi have "of_int (q + 1) - 1 < x" "x \<le> of_int (q + 1)"
      by simp_all
    then have "\<lceil>x\<rceil> = q + 1" by (rule ceiling_unique)
    ultimately show ?thesis
      by (simp add: Math_ceil_def js_div_def x_def [symmetric])
  qed
qed

section \<open>The join window\<close>

text \<open>
  C5. For a caller who is the booking user or the assigned therapist of an appointment
  whose two references resolve: before \<open>date\<close> minus five minutes the join is rejected
  with \<open>canJoinAt\<close> at that instant and the number of minutes
  \<open>\<lceil>(date - 5 min - now) / 60000\<rceil>\<close>; from that instant to \<open>date\<close> plus duration, both
  ends included, it returns the meeting link; after that it is rejected as ended. The
  handler computes the number of minutes in binary64, which gives the exact ceiling for
  every wait below \<open>2 ^ 53\<close> milliseconds; two valid dates after the epoch are closer
  than that.
\<close>

theorem join_session_window:
  assumes "Appointment_findById aid d = Some a"
    and "User_findById (userId a) d = Some u"
    and "TherapistAuth_findById (therapistId a) d = Some th"
    and "caller = userId a \<or> caller = therapistId a"
    and "0 \<le> duration a"
  shows "(now < date a - 5 * 60000 \<longrightarrow>
       (\<exists>N. join_session now caller aid d = CanJoinIn N (date a - 5 * 60000)) \<and>
       (date a - 5 * 60000 - now < 2 ^ 53 \<longrightarrow>
          join_session now caller aid d =
            CanJoinIn \<lceil>(of_int (date a - 5 * 60000 - now) :: rat) / 60000\<rceil> (date a - 5 * 60000))) \<and>
     (date a - 5 * 60000 \<le> now \<and> now \<le> date a + duration a * 60000 \<longrightarrow>
        join_session now caller aid d = Joined (meetingLink a) (caller = therapistId a)) \<and>
     (date a + duration a * 60000 < now \<longrightarrow> join_session now caller aid d = SessionEnded)"
proof -
  have ids: "u_id u = userId a" "t_id th = therapistId a"
    using assms by (auto dest: findUser_id findTherapist_id)
  have early: "join_session now caller aid d =
      CanJoinIn (Math_ceil (js_div (js_sub (of_int (date a - 5 * 60000)) (of_int now)) 60000)) (date a - 5 * 60000)"
    if "now < date a - 5 * 60000"
    using that assms(1-4) ids by (auto simp: join_session_def Let_def)
  have exact: "Math_ceil (js_div (js_sub (of_int (date a - 5 * 60000)) (of_int now)) 60000) =
      \<lceil>(of_int (date a - 5 * 60000 - now) :: rat) / 60000\<rceil>"
    if "now < date a - 5 * 60000" "date a - 5 * 60000 - now < 2 ^ 53"
  proof -
    from that have p: "0 < date a - 5 * 60000 - now" by simp
    have "js_sub (of_int (date a - 5 * 60000)) (of_int now) = of_int (date a - 5 * 60000 - now)"
      using round_double_of_int [OF p that(2)] by (simp add: js_sub_def)
    then show ?thesis
      using ceil_js_div_minute [OF p that(2)] by simp
  qed
  have inside: "join_session now caller aid d = Joined (meetingLink a) (caller = therapistId a)"
    if "date a - 5 * 60000 \<le> now \<and> now \<le> date a + duration a * 60000"
    using that assms(1-4) ids by (auto simp: join_session_def Let_def)
  have late: "join_session now caller aid d = SessionEnded"
    if "date a + duration a * 60000 < now"
    using that assms ids by (auto simp: join_session_def Let_def)
  show ?thesis
    using early exact inside late by auto
qed

theorem join_session_window_witness:
  "join_session 600000 2 7 ex_db = CanJoinIn 2 700000 \<and>
   join_session 700000 2 7 ex_db = Joined ''https://meet.jit.si/zenmind-700000-x1'' False \<and>
   join_session 2800000 1 7 ex_db = Joined ''https://meet.jit.si/zenmind-700000-x1'' True \<and>
   join_session 2800001 2 7 ex_db = SessionEnded"
proof -
  have 2: "User_findById (userId ex_appointment) ex_db = Some \<lparr>u_id = 2, u_name = ''teen'', u_email = ''teen@example.org''\<rparr>"
    by code_simp
  have 3: "TherapistAuth_findById (therapistId ex_appointment) ex_db = Some ex_therapist"
    by code_simp
  have 4: "2 = userId ex_appointment \<or> 2 = therapistId ex_appointment"
    by (simp add: ex_appointment_def)
  have 6: "1 = userId ex_appointment \<or> 1 = therapistId ex_appointment"
    by (simp add: ex_appointment_def)
  have 5: "0 \<le> duration ex_appointment" by (simp add: ex_appointment_def)
  note t = join_session_window [OF ex_find_appointment 2 3 _ 5]
  have v: "date ex_appointment = 1000000" "duration ex_appointment = 30"
    "meetingLink ex_appointment = ''https://meet.jit.si/zenmind-700000-x1''"
    "therapistId ex_appointment = 1"
    by (simp_all add: ex_appointment_def)
  have n: "\<lceil>(5::rat) / 3\<rceil> = 2"
    by (rule ceiling_unique) simp_all
  have a: "join_session 600000 2 7 ex_db = CanJoinIn 2 700000"
    using t [OF 4, of 600000] by (simp add: v n)
  have b: "join_session 700000 2 7 ex_db = Joined ''https://meet.jit.si/zenmind-700000-x1'' False"
    using t [OF 4, of 700000] by (simp add: v)
  have c: "join_session 2800000 1 7 ex_db = Joined ''https://meet.jit.si/zenmind-700000-x1'' True"
    using t [OF 6, of 2800000] by (simp add: v)
  have e: "join_session 2800001 2 7 ex_db = SessionEnded"
    using t [OF 4, of 2800001] by (simp add: v)
  from a b c e show ?thesis by simp
qed

end
